theory Spec2Isabelle
  imports Complex_Main
begin

section \<open>JavaScript strings and values\<close>

text \<open>
  Strings are lists of code units below 256. White space is what both \<^verbatim>\<open>String.prototype.trim\<close>
  and the regular expression class \<^verbatim>\<open>\s\<close> accept in that range: TAB, LF, VT, FF, CR, SPACE and
  the no-break space. Letter case is mapped on the ASCII letters, which is all that tag names use.
\<close>

definition isWhiteSpace :: "char \<Rightarrow> bool" where
  "isWhiteSpace c \<longleftrightarrow>
     c \<in> set [CHR 0x09, CHR 0x0A, CHR 0x0B, CHR 0x0C, CHR 0x0D, CHR 0x20, CHR 0xA0]"

definition trim :: "string \<Rightarrow> string" where
  "trim s = rev (dropWhile isWhiteSpace (rev (dropWhile isWhiteSpace s)))"

text \<open>\<^verbatim>\<open>s.replace(/\s+/g, ' ')\<close>: every maximal run of white space becomes one space.\<close>

function replace_ws :: "string \<Rightarrow> string" where
  "replace_ws [] = []"
| "replace_ws (c # cs) =
     (if isWhiteSpace c then CHR '' '' # replace_ws (dropWhile isWhiteSpace cs)
      else c # replace_ws cs)"
  by pat_completeness auto
termination
  by (relation "measure length") (auto simp: length_dropWhile_le less_Suc_eq_le)

definition upper_letters :: string where
  "upper_letters = ''ABCDEFGHIJKLMNOPQRSTUVWXYZ''"

definition lower_letters :: string where
  "lower_letters = ''abcdefghijklmnopqrstuvwxyz''"

definition toLowerChar :: "char \<Rightarrow> char" where
  "toLowerChar c = (case map_of (zip upper_letters lower_letters) c of Some l \<Rightarrow> l | None \<Rightarrow> c)"

definition toUpperChar :: "char \<Rightarrow> char" where
  "toUpperChar c = (case map_of (zip lower_letters upper_letters) c of Some u \<Rightarrow> u | None \<Rightarrow> c)"

definition toLowerCase :: "string \<Rightarrow> string" where
  "toLowerCase s = map toLowerChar s"

definition toUpperCase :: "string \<Rightarrow> string" where
  "toUpperCase s = map toUpperChar s"

text \<open>\<^verbatim>\<open>Array.prototype.join\<close> on an array of strings.\<close>

fun join :: "string \<Rightarrow> string list \<Rightarrow> string" where
  "join sep [] = []"
| "join sep [x] = x"
| "join sep (x # y # ys) = x @ sep @ join sep (y # ys)"

text \<open>The decimal numeral that a template literal prints for a non-negative integer.\<close>

definition digit_chars :: string where
  "digit_chars = ''0123456789''"

function decimal :: "nat \<Rightarrow> string" where
  "decimal n = (if n < 10 then [digit_chars ! n]
                else decimal (n div 10) @ [digit_chars ! (n mod 10)])"
  by pat_completeness auto
termination
  by (relation "measure id") auto

declare decimal.simps [simp del]

text \<open>
  The values a host property or a field of an object literal can hold. Numbers are the finite
  ones (a bounding box never holds NaN or an infinity). An object lists its own enumerable
  properties in creation order.
\<close>

datatype js_value =
    JUndefined
  | JNull
  | JBool bool
  | JNum real
  | JStr string
  | JObject "(string \<times> js_value) list"
  | JArray "js_value list"

fun truthy :: "js_value \<Rightarrow> bool" where
  "truthy JUndefined = False"
| "truthy JNull = False"
| "truthy (JBool b) = b"
| "truthy (JNum n) = (n \<noteq> 0)"
| "truthy (JStr s) = (s \<noteq> [])"
| "truthy (JObject kvs) = True"
| "truthy (JArray vs) = True"

text \<open>\<^verbatim>\<open>a || b\<close> on values.\<close>

definition js_or :: "js_value \<Rightarrow> js_value \<Rightarrow> js_value" where
  "js_or a b = (if truthy a then a else b)"

datatype js_error = TypeError

text \<open>
  \<^verbatim>\<open>v.trim()\<close>: only a string has the method; on \<^verbatim>\<open>undefined\<close> and \<^verbatim>\<open>null\<close> the property
  access throws, on any other value the call of a missing method throws.
\<close>

fun js_trim :: "js_value \<Rightarrow> js_error + string" where
  "js_trim (JStr s) = Inr (trim s)"
| "js_trim v = Inl TypeError"

text \<open>\<^verbatim>\<open>s || null\<close> for a string or null \<^verbatim>\<open>s\<close>: the empty string becomes null.\<close>

fun or_null :: "string option \<Rightarrow> string option" where
  "or_null None = None"
| "or_null (Some s) = (if s = [] then None else Some s)"

text \<open>\<^verbatim>\<open>a || b\<close> where \<^verbatim>\<open>a\<close> is a string or null and \<^verbatim>\<open>b\<close> a string.\<close>

fun or_else :: "string option \<Rightarrow> string \<Rightarrow> string" where
  "or_else None b = b"
| "or_else (Some s) b = (if s = [] then b else s)"

section \<open>The document\<close>

text \<open>
  The scan reads an HTML document through the DOM. The tree is a datatype; what the rendering
  engine computes for an element (bounding box, offset parent, computed style, \<^verbatim>\<open>innerText\<close>)
  and the properties whose presence and type depend on the element's interface (\<^verbatim>\<open>value\<close>,
  \<^verbatim>\<open>type\<close>, \<^verbatim>\<open>className\<close>, \<^verbatim>\<open>disabled\<close>, \<^verbatim>\<open>readOnly\<close>, \<^verbatim>\<open>checked\<close>, \<^verbatim>\<open>selected\<close>) are fields of
  the element, holding whatever the host reports, \<^const>\<open>JUndefined\<close> where the interface has no
  such property.

  \<^verbatim>\<open>nodeName\<close> (and \<^verbatim>\<open>tagName\<close>, the same string on an element) is as the host reports it: in an
  HTML document the name of an HTML element is in upper case, and an element of another
  namespace (inline SVG or MathML) keeps the case it was created with.

  \<^verbatim>\<open>id\<close> reflects the content attribute of that name. A form whose \<^verbatim>\<open>id\<close> or \<^verbatim>\<open>name\<close> property
  is shadowed by a control of that name, and an id holding a double quote, a backslash or a line
  break (which the selector text built on line 101 does not carry unchanged) are outside the
  model.
\<close>

record DOMRect =
  rect_x :: real
  rect_y :: real
  rect_width :: real
  rect_height :: real

record element =
  nodeName :: string
  attrs :: "(string \<times> string) list"
  className :: js_value
  value_prop :: js_value
  type_prop :: js_value
  disabled :: js_value
  readOnly :: js_value
  checked :: js_value
  selected :: js_value
  innerText :: js_value
  offsetParent_is_null :: bool
  style_visibility :: string
  style_display :: string
  boundingClientRect :: DOMRect

text \<open>
  A node is an element with its child nodes, a text node with its data, or a node of another
  kind (comment, document type, processing instruction) of which only \<^verbatim>\<open>nodeName\<close> matters.
  A document is the list of children of the document node. A node is identified by its path:
  the child indices from the document node down to it; the empty path is the document node.
\<close>

datatype node =
    Element element "node list"
  | Text string
  | Other string

type_synonym document = "node list"

type_synonym path = "nat list"

fun node_name :: "node \<Rightarrow> string" where
  "node_name (Element e cs) = nodeName e"
| "node_name (Text s) = ''#text''"
| "node_name (Other n) = n"

fun is_element :: "node \<Rightarrow> bool" where
  "is_element (Element e cs) = True"
| "is_element (Text s) = False"
| "is_element (Other n) = False"

fun childNodes :: "node list \<Rightarrow> path \<Rightarrow> node list" where
  "childNodes ns [] = ns"
| "childNodes ns (i # p) =
     (if i < length ns
      then (case ns ! i of Element e cs \<Rightarrow> childNodes cs p | Text s \<Rightarrow> [] | Other n \<Rightarrow> [])
      else [])"

definition node_at :: "document \<Rightarrow> path \<Rightarrow> node option" where
  "node_at d p =
     (if p = [] then None
      else (let sibs = childNodes d (butlast p)
            in if last p < length sibs then Some (sibs ! last p) else None))"

definition getAttribute :: "element \<Rightarrow> string \<Rightarrow> string option" where
  "getAttribute e n = map_of (attrs e) n"

definition elem_id :: "element \<Rightarrow> string" where
  "elem_id e = (case getAttribute e ''id'' of Some v \<Rightarrow> v | None \<Rightarrow> [])"

section \<open>getXPathForElement\<close>

text \<open>
  Lines 20-25: the loop over \<^verbatim>\<open>previousSibling\<close>, nearest sibling first, counting the elements
  of the same \<^verbatim>\<open>nodeName\<close>.
\<close>

fun previousSiblingLoop :: "string \<Rightarrow> node list \<Rightarrow> nat \<Rightarrow> nat" where
  "previousSiblingLoop nm [] nb = nb"
| "previousSiblingLoop nm (s # ss) nb =
     previousSiblingLoop nm ss (if is_element s \<and> node_name s = nm then Suc nb else nb)"

text \<open>
  Lines 27-33: the loop over \<^verbatim>\<open>nextSibling\<close>, which compares \<^verbatim>\<open>nodeName\<close> only and stops at the
  first match.
\<close>

fun nextSiblingLoop :: "string \<Rightarrow> node list \<Rightarrow> bool" where
  "nextSiblingLoop nm [] = False"
| "nextSiblingLoop nm (s # ss) = (if node_name s = nm then True else nextSiblingLoop nm ss)"

text \<open>Lines 17-37: the segment of the element that is child \<open>i\<close> among \<open>sibs\<close>.\<close>

definition xpathPart :: "node list \<Rightarrow> nat \<Rightarrow> element \<Rightarrow> string" where
  "xpathPart sibs i e =
     (let nbOfPreviousSiblings = previousSiblingLoop (nodeName e) (rev (take i sibs)) 0;
          hasNextSiblings = nextSiblingLoop (nodeName e) (drop (Suc i) sibs);
          tagName = toLowerCase (nodeName e)
      in if nbOfPreviousSiblings \<noteq> 0 \<or> hasNextSiblings
         then tagName @ ''['' @ decimal (nbOfPreviousSiblings + 1) @ '']''
         else tagName)"

text \<open>
  Lines 16-40: the walk to the root. It stops at the first node that is not an element, which
  for a node of the document is the document node.
\<close>

function xpathLoop :: "document \<Rightarrow> path \<Rightarrow> string list \<Rightarrow> string list" where
  "xpathLoop d p parts =
     (case node_at d p of
        Some (Element e cs) \<Rightarrow>
          xpathLoop d (butlast p) (xpathPart (childNodes d (butlast p)) (last p) e # parts)
      | Some (Text s) \<Rightarrow> parts
      | Some (Other n) \<Rightarrow> parts
      | None \<Rightarrow> parts)"
  by pat_completeness auto
termination
  by (relation "measure (\<lambda>(d, p, parts). length p)") (auto simp: node_at_def split: if_splits)

declare xpathLoop.simps [simp del]

text \<open>Line 12: \<^verbatim>\<open>element && element.id\<close>; only an element has an \<^verbatim>\<open>id\<close>.\<close>

definition has_id :: "document \<Rightarrow> path \<Rightarrow> string option" where
  "has_id d p =
     (case node_at d p of
        Some (Element e cs) \<Rightarrow> (if elem_id e \<noteq> [] then Some (elem_id e) else None)
      | Some (Text s) \<Rightarrow> None
      | Some (Other n) \<Rightarrow> None
      | None \<Rightarrow> None)"

definition getXPathForElement :: "document \<Rightarrow> path \<Rightarrow> string option" where
  "getXPathForElement d p =
     (case has_id d p of
        Some i \<Rightarrow> Some (''//*[@id='' @ [CHR 0x27] @ i @ [CHR 0x27] @ '']'')
      | None \<Rightarrow>
          (let parts = xpathLoop d p []
           in if parts \<noteq> [] then Some (''/'' @ join ''/'' parts) else None))"

section \<open>Selectors and tree queries\<close>

text \<open>
  All elements of a list of sibling nodes and below, as paths, in document order; the first
  argument is the index of the first sibling.
\<close>

fun descendants :: "nat \<Rightarrow> node list \<Rightarrow> path list" where
  "descendants i [] = []"
| "descendants i (Element e cs # ns) =
     [i] # map ((#) i) (descendants 0 cs) @ descendants (Suc i) ns"
| "descendants i (Text s # ns) = descendants (Suc i) ns"
| "descendants i (Other n # ns) = descendants (Suc i) ns"

text \<open>
  A type selector in an HTML document: an HTML element matches whatever the case of its tag
  was, an element of another namespace only by its exact name.
\<close>

definition matches_type :: "string \<Rightarrow> element \<Rightarrow> bool" where
  "matches_type t e \<longleftrightarrow> nodeName e = toUpperCase t \<or> nodeName e = t"

text \<open>Line 71: the selector list.\<close>

definition interactiveSelector :: "element \<Rightarrow> bool" where
  "interactiveSelector e \<longleftrightarrow>
     list_ex (\<lambda>t. matches_type t e)
       [''a'', ''button'', ''input'', ''select'', ''textarea'', ''label'',
        ''h1'', ''h2'', ''h3'', ''h4'']
     \<or> getAttribute e ''role'' = Some ''button''
     \<or> getAttribute e ''role'' = Some ''link''
     \<or> getAttribute e ''role'' = Some ''tab''
     \<or> getAttribute e ''onclick'' \<noteq> None"

definition element_matches :: "document \<Rightarrow> (element \<Rightarrow> bool) \<Rightarrow> path \<Rightarrow> bool" where
  "element_matches d sel p =
     (case node_at d p of
        Some (Element e cs) \<Rightarrow> sel e
      | Some (Text s) \<Rightarrow> False
      | Some (Other n) \<Rightarrow> False
      | None \<Rightarrow> False)"

text \<open>\<^verbatim>\<open>document.querySelectorAll\<close>: every matching element once, in document order.\<close>

definition querySelectorAll :: "document \<Rightarrow> (element \<Rightarrow> bool) \<Rightarrow> path list" where
  "querySelectorAll d sel = filter (element_matches d sel) (descendants 0 d)"

text \<open>\<^verbatim>\<open>document.querySelector\<close>: the first match in document order, or null.\<close>

definition querySelector :: "document \<Rightarrow> (element \<Rightarrow> bool) \<Rightarrow> path option" where
  "querySelector d sel = find (element_matches d sel) (descendants 0 d)"

text \<open>Line 101: \<^verbatim>\<open>label[for="<id>"]\<close>.\<close>

definition label_for :: "string \<Rightarrow> element \<Rightarrow> bool" where
  "label_for i e \<longleftrightarrow> matches_type ''label'' e \<and> getAttribute e ''for'' = Some i"

text \<open>
  \<^verbatim>\<open>element.closest(t)\<close> for a type selector: the element itself or its nearest ancestor
  element that matches, or null.
\<close>

function closest :: "document \<Rightarrow> string \<Rightarrow> path \<Rightarrow> path option" where
  "closest d t p =
     (case node_at d p of
        Some (Element e cs) \<Rightarrow> (if matches_type t e then Some p else closest d t (butlast p))
      | Some (Text s) \<Rightarrow> None
      | Some (Other n) \<Rightarrow> None
      | None \<Rightarrow> None)"
  by pat_completeness auto
termination
  by (relation "measure (\<lambda>(d, t, p). length p)") (auto simp: node_at_def split: if_splits)

declare closest.simps [simp del]

text \<open>\<^verbatim>\<open>textContent\<close>: the data of the text nodes below, in document order.\<close>

fun textContent :: "node \<Rightarrow> string" where
  "textContent (Element e cs) = concat (map textContent cs)"
| "textContent (Text s) = s"
| "textContent (Other n) = []"

section \<open>The scan\<close>

subsection \<open>Records\<close>

text \<open>
  The object literal of lines 129-165, one record type for each nested object. A field that
  is \<^verbatim>\<open>x || null\<close> of a string is a string option, null being \<^const>\<open>None\<close>; a field that passes
  a host value through is a value. The fields \<^verbatim>\<open>text\<close> and \<^verbatim>\<open>context\<close> are \<open>texts\<close> and
  \<open>ancestorContext\<close> here, and the fields of the nested objects carry a prefix.
\<close>

record record_attributes =
  attr_id :: "string option"
  attr_class :: js_value
  attr_name :: "string option"
  attr_type :: js_value
  attr_role :: "string option"
  attr_ariaLabel :: "string option"
  attr_placeholder :: "string option"
  attr_href :: "string option"

record record_state =
  isDisabled :: js_value
  isReadOnly :: js_value
  isChecked :: js_value
  isSelected :: js_value
  isHiddenByAria :: bool

record record_text =
  text_visibleText :: "string option"
  text_labelText :: "string option"
  text_computedText :: string

record FormContext =
  form_id :: "string option"
  form_name :: "string option"

record AncestorContext =
  ctx_tagName :: string
  ctx_id :: "string option"
  ctx_role :: "string option"
  ctx_ariaLabel :: "string option"
  ctx_form :: "FormContext option"

record ElementRecord =
  tagName :: string
  attributes :: record_attributes
  state :: record_state
  texts :: record_text
  ancestorContext :: "AncestorContext option"
  xpath :: "string option"
  location :: DOMRect

subsection \<open>getAncestorContext\<close>

text \<open>
  Lines 50-68. \<^verbatim>\<open>parentElement\<close> is null for the root element, whose parent is the document
  node. The \<^verbatim>\<open>name\<close> of a form reflects its content attribute.
\<close>

definition formContext :: "document \<Rightarrow> path \<Rightarrow> FormContext option" where
  "formContext d p =
     (case closest d ''form'' p of
        None \<Rightarrow> None
      | Some f \<Rightarrow>
          (case node_at d f of
             Some (Element fe fcs) \<Rightarrow>
               Some \<lparr> form_id = or_null (Some (elem_id fe)),
                      form_name = or_null (getAttribute fe ''name'') \<rparr>
           | Some (Text s) \<Rightarrow> None
           | Some (Other n) \<Rightarrow> None
           | None \<Rightarrow> None))"

definition getAncestorContext :: "document \<Rightarrow> path \<Rightarrow> AncestorContext option" where
  "getAncestorContext d p =
     (case node_at d (butlast p) of
        Some (Element parent pcs) \<Rightarrow>
          Some \<lparr> ctx_tagName = toLowerCase (nodeName parent),
                 ctx_id = or_null (Some (elem_id parent)),
                 ctx_role = or_null (getAttribute parent ''role''),
                 ctx_ariaLabel = or_null (getAttribute parent ''aria-label''),
                 ctx_form = formContext d p \<rparr>
      | Some (Text s) \<Rightarrow> None
      | Some (Other n) \<Rightarrow> None
      | None \<Rightarrow> None)"

subsection \<open>Text extraction\<close>

definition and_then :: "js_error + 'a \<Rightarrow> ('a \<Rightarrow> js_error + 'b) \<Rightarrow> js_error + 'b" where
  "and_then m f = (case m of Inl err \<Rightarrow> Inl err | Inr v \<Rightarrow> f v)"

text \<open>Line 94: \<^verbatim>\<open>(element.textContent || element.innerText || "").trim()\<close>.\<close>

definition mainTextOf :: "element \<Rightarrow> node list \<Rightarrow> js_error + string" where
  "mainTextOf e cs =
     js_trim (js_or (js_or (JStr (textContent (Element e cs))) (innerText e)) (JStr []))"

text \<open>Line 95: \<^verbatim>\<open>element.value ? element.value.trim() : ""\<close>.\<close>

definition valueTextOf :: "element \<Rightarrow> js_error + string" where
  "valueTextOf e = (if truthy (value_prop e) then js_trim (value_prop e) else Inr [])"

text \<open>Lines 103 and 109: \<^verbatim>\<open>(label.textContent || label.innerText).trim()\<close> for the label at a path.\<close>

definition labelTextAt :: "document \<Rightarrow> path \<Rightarrow> js_error + string" where
  "labelTextAt d q =
     (case node_at d q of
        Some (Element l lcs) \<Rightarrow> js_trim (js_or (JStr (textContent (Element l lcs))) (innerText l))
      | Some (Text s) \<Rightarrow> Inl TypeError
      | Some (Other n) \<Rightarrow> Inl TypeError
      | None \<Rightarrow> Inl TypeError)"

text \<open>Lines 99-105: the text of the first label whose \<^verbatim>\<open>for\<close> is the id of the element.\<close>

definition labelForText :: "document \<Rightarrow> element \<Rightarrow> js_error + string" where
  "labelForText d e =
     (if elem_id e \<noteq> []
      then (case querySelector d (label_for (elem_id e)) of
              Some l \<Rightarrow> labelTextAt d l
            | None \<Rightarrow> Inr [])
      else Inr [])"

text \<open>Lines 106-111: when that is empty, the text of the closest label.\<close>

definition labelTextOf :: "document \<Rightarrow> path \<Rightarrow> element \<Rightarrow> js_error + string" where
  "labelTextOf d p e =
     and_then (labelForText d e) (\<lambda>labelText.
       if labelText = []
       then (case closest d ''label'' p of
               Some parentLabel \<Rightarrow> labelTextAt d parentLabel
             | None \<Rightarrow> Inr labelText)
       else Inr labelText)"

text \<open>Line 118.\<close>

definition computedTextOf :: "element \<Rightarrow> string \<Rightarrow> string \<Rightarrow> string" where
  "computedTextOf e labelText visibleText =
     trim (replace_ws
       (or_else (getAttribute e ''aria-label'')
         (or_else (Some labelText)
           (or_else (Some visibleText)
             (or_else (getAttribute e ''placeholder'')
               (or_else (getAttribute e ''name'') []))))))"

record extracted =
  ex_visibleText :: string
  ex_labelText :: string
  ex_computedText :: string

text \<open>Lines 94-118 for the element at \<open>p\<close>.\<close>

definition extractText :: "document \<Rightarrow> path \<Rightarrow> element \<Rightarrow> node list \<Rightarrow> js_error + extracted" where
  "extractText d p e cs =
     and_then (mainTextOf e cs) (\<lambda>mainText.
     and_then (valueTextOf e) (\<lambda>valueText.
     and_then (labelTextOf d p e) (\<lambda>labelText.
       (let visibleText = (if mainText \<noteq> [] then mainText else valueText)
        in Inr \<lparr> ex_visibleText = visibleText,
                 ex_labelText = labelText,
                 ex_computedText = computedTextOf e labelText visibleText \<rparr>))))"

subsection \<open>The filter and the record\<close>

text \<open>Line 87, Rule 1.\<close>

definition invisible :: "element \<Rightarrow> bool" where
  "invisible e \<longleftrightarrow>
     rect_width (boundingClientRect e) = 0 \<or> rect_height (boundingClientRect e) = 0
     \<or> offsetParent_is_null e \<or> style_visibility e = ''hidden'' \<or> style_display e = ''none''"

text \<open>Lines 129-165: the object literal.\<close>

definition buildRecord :: "document \<Rightarrow> path \<Rightarrow> element \<Rightarrow> extracted \<Rightarrow> ElementRecord" where
  "buildRecord d p e t =
     \<lparr> tagName = toLowerCase (nodeName e),
       attributes =
         \<lparr> attr_id = or_null (Some (elem_id e)),
           attr_class = js_or (className e) JNull,
           attr_name = or_null (getAttribute e ''name''),
           attr_type = (if toLowerCase (nodeName e) = ''input'' then type_prop e else JNull),
           attr_role = or_null (getAttribute e ''role''),
           attr_ariaLabel = or_null (getAttribute e ''aria-label''),
           attr_placeholder = or_null (getAttribute e ''placeholder''),
           attr_href = or_null (getAttribute e ''href'') \<rparr>,
       state =
         \<lparr> isDisabled = disabled e,
           isReadOnly = readOnly e,
           isChecked = checked e,
           isSelected = selected e,
           isHiddenByAria = (getAttribute e ''aria-hidden'' = Some ''true'') \<rparr>,
       texts =
         \<lparr> text_visibleText = or_null (Some (ex_visibleText t)),
           text_labelText = or_null (Some (ex_labelText t)),
           text_computedText = ex_computedText t \<rparr>,
       ancestorContext = getAncestorContext d p,
       xpath = getXPathForElement d p,
       location = boundingClientRect e \<rparr>"

subsection \<open>The loop\<close>

text \<open>
  \<^verbatim>\<open>processedElements\<close> is a \<^verbatim>\<open>Set\<close> of nodes: it keeps its members in insertion order and
  \<^verbatim>\<open>add\<close> of a member changes nothing.
\<close>

definition Set_has :: "path list \<Rightarrow> path \<Rightarrow> bool" where
  "Set_has s p \<longleftrightarrow> p \<in> set s"

definition Set_add :: "path list \<Rightarrow> path \<Rightarrow> path list" where
  "Set_add s p = (if p \<in> set s then s else s @ [p])"

record scan_state =
  processedElements :: "path list"
  elementDetails :: "ElementRecord list"

text \<open>
  What lines 82-165 do with the element at \<open>p\<close>, whatever the state: fail, skip it
  (\<^verbatim>\<open>return\<close> on line 88 or 122), or build its record.
\<close>

definition examine :: "document \<Rightarrow> path \<Rightarrow> js_error + ElementRecord option" where
  "examine d p =
     (case node_at d p of
        Some (Element e cs) \<Rightarrow>
          (if invisible e then Inr None
           else and_then (extractText d p e cs) (\<lambda>t.
             if elem_id e = [] \<and> ex_computedText t = [] then Inr None
             else Inr (Some (buildRecord d p e t))))
      | Some (Text s) \<Rightarrow> Inl TypeError
      | Some (Other n) \<Rightarrow> Inl TypeError
      | None \<Rightarrow> Inl TypeError)"

text \<open>
  Lines 76-166, the callback. \<^verbatim>\<open>getComputedStyle\<close> throws a TypeError on anything that is not
  an element.
\<close>

definition callback :: "document \<Rightarrow> path \<Rightarrow> scan_state \<Rightarrow> js_error + scan_state" where
  "callback d p st =
     (if Set_has (processedElements st) p then Inr st
      else and_then (examine d p) (\<lambda>r.
        case r of
          None \<Rightarrow> Inr st
        | Some details \<Rightarrow>
            Inr \<lparr> processedElements = Set_add (processedElements st) p,
                   elementDetails = elementDetails st @ [details] \<rparr>))"

fun forEach :: "document \<Rightarrow> path list \<Rightarrow> scan_state \<Rightarrow> js_error + scan_state" where
  "forEach d [] st = Inr st"
| "forEach d (p # ps) st = and_then (callback d p st) (forEach d ps)"

definition scan :: "document \<Rightarrow> js_error + scan_state" where
  "scan d =
     forEach d (querySelectorAll d interactiveSelector)
       \<lparr> processedElements = [], elementDetails = [] \<rparr>"

section \<open>Serialization\<close>

text \<open>
  Line 181 prints \<^verbatim>\<open>JSON.stringify(elementDetails, null, 2)\<close>. The text is represented by its
  syntax tree: a JSON text has no way to write \<^verbatim>\<open>undefined\<close>. \<^verbatim>\<open>JSON.stringify\<close> follows
  SerializeJSONProperty of ECMA-262: a property whose value is \<^verbatim>\<open>undefined\<close> is left out of its
  object, an array element that is \<^verbatim>\<open>undefined\<close> is written \<^verbatim>\<open>null\<close>, and \<^verbatim>\<open>undefined\<close> itself has
  no text. \<^verbatim>\<open>JSON.parse\<close> builds the value that a text denotes. Printing a tree as characters
  and reading the characters back is taken to be exact.
\<close>

datatype json =
    JsonNull
  | JsonBool bool
  | JsonNumber real
  | JsonString string
  | JsonObject "(string \<times> json) list"
  | JsonArray "json list"

fun JSON_stringify :: "js_value \<Rightarrow> json option"
  and stringify_properties :: "(string \<times> js_value) list \<Rightarrow> (string \<times> json) list"
  and stringify_elements :: "js_value list \<Rightarrow> json list" where
  "JSON_stringify JUndefined = None"
| "JSON_stringify JNull = Some JsonNull"
| "JSON_stringify (JBool b) = Some (JsonBool b)"
| "JSON_stringify (JNum n) = Some (JsonNumber n)"
| "JSON_stringify (JStr s) = Some (JsonString s)"
| "JSON_stringify (JObject kvs) = Some (JsonObject (stringify_properties kvs))"
| "JSON_stringify (JArray vs) = Some (JsonArray (stringify_elements vs))"
| "stringify_properties [] = []"
| "stringify_properties ((k, v) # kvs) =
     (case JSON_stringify v of
        None \<Rightarrow> stringify_properties kvs
      | Some j \<Rightarrow> (k, j) # stringify_properties kvs)"
| "stringify_elements [] = []"
| "stringify_elements (v # vs) =
     (case JSON_stringify v of None \<Rightarrow> JsonNull | Some j \<Rightarrow> j) # stringify_elements vs"

fun JSON_parse :: "json \<Rightarrow> js_value"
  and parse_members :: "(string \<times> json) list \<Rightarrow> (string \<times> js_value) list"
  and parse_elements :: "json list \<Rightarrow> js_value list" where
  "JSON_parse JsonNull = JNull"
| "JSON_parse (JsonBool b) = JBool b"
| "JSON_parse (JsonNumber n) = JNum n"
| "JSON_parse (JsonString s) = JStr s"
| "JSON_parse (JsonObject ms) = JObject (parse_members ms)"
| "JSON_parse (JsonArray js) = JArray (parse_elements js)"
| "parse_members [] = []"
| "parse_members ((k, j) # ms) = (k, JSON_parse j) # parse_members ms"
| "parse_elements [] = []"
| "parse_elements (j # js) = JSON_parse j # parse_elements js"

text \<open>The value read back from the text of a value; none when there is no text.\<close>

definition reparsed :: "js_value \<Rightarrow> js_value option" where
  "reparsed v = map_option JSON_parse (JSON_stringify v)"

text \<open>\<^verbatim>\<open>Object.keys\<close>.\<close>

fun object_keys :: "js_value \<Rightarrow> string list" where
  "object_keys (JObject kvs) = map fst kvs"
| "object_keys v = []"

text \<open>
  The object that lines 129-165 build, as a value: the fields of a record in the order of the
  literal. The \<^verbatim>\<open>form\<close> property of the context exists only when line 63 assigned it.
\<close>

definition string_or_null :: "string option \<Rightarrow> js_value" where
  "string_or_null s = (case s of None \<Rightarrow> JNull | Some v \<Rightarrow> JStr v)"

definition attributes_object :: "record_attributes \<Rightarrow> js_value" where
  "attributes_object a =
     JObject [(''id'', string_or_null (attr_id a)),
              (''class'', attr_class a),
              (''name'', string_or_null (attr_name a)),
              (''type'', attr_type a),
              (''role'', string_or_null (attr_role a)),
              (''ariaLabel'', string_or_null (attr_ariaLabel a)),
              (''placeholder'', string_or_null (attr_placeholder a)),
              (''href'', string_or_null (attr_href a))]"

definition state_properties :: "record_state \<Rightarrow> (string \<times> js_value) list" where
  "state_properties s =
     [(''isDisabled'', isDisabled s),
      (''isReadOnly'', isReadOnly s),
      (''isChecked'', isChecked s),
      (''isSelected'', isSelected s),
      (''isHiddenByAria'', JBool (isHiddenByAria s))]"

definition state_object :: "record_state \<Rightarrow> js_value" where
  "state_object s = JObject (state_properties s)"

definition text_object :: "record_text \<Rightarrow> js_value" where
  "text_object t =
     JObject [(''visibleText'', string_or_null (text_visibleText t)),
              (''labelText'', string_or_null (text_labelText t)),
              (''computedText'', JStr (text_computedText t))]"

definition form_object :: "FormContext \<Rightarrow> js_value" where
  "form_object f =
     JObject [(''id'', string_or_null (form_id f)), (''name'', string_or_null (form_name f))]"

definition context_object :: "AncestorContext option \<Rightarrow> js_value" where
  "context_object c =
     (case c of
        None \<Rightarrow> JNull
      | Some parentContext \<Rightarrow>
          JObject ([(''tagName'', JStr (ctx_tagName parentContext)),
                    (''id'', string_or_null (ctx_id parentContext)),
                    (''role'', string_or_null (ctx_role parentContext)),
                    (''ariaLabel'', string_or_null (ctx_ariaLabel parentContext))]
                   @ (case ctx_form parentContext of
                        None \<Rightarrow> []
                      | Some f \<Rightarrow> [(''form'', form_object f)])))"

definition location_object :: "DOMRect \<Rightarrow> js_value" where
  "location_object r =
     JObject [(''x'', JNum (rect_x r)), (''y'', JNum (rect_y r)),
              (''width'', JNum (rect_width r)), (''height'', JNum (rect_height r))]"

definition record_object :: "ElementRecord \<Rightarrow> js_value" where
  "record_object r =
     JObject [(''tagName'', JStr (tagName r)),
              (''attributes'', attributes_object (attributes r)),
              (''state'', state_object (state r)),
              (''text'', text_object (texts r)),
              (''context'', context_object (ancestorContext r)),
              (''xpath'', string_or_null (xpath r)),
              (''location'', location_object (location r))]"

definition details_array :: "ElementRecord list \<Rightarrow> js_value" where
  "details_array rs = JArray (map record_object rs)"

section \<open>Evaluating a path\<close>















section \<open>Vocabulary of the statements\<close>

text \<open>
  The records that the node at \<open>p\<close> contributed to the output: record number \<open>i\<close> of
  \<^verbatim>\<open>elementDetails\<close> was pushed right after member number \<open>i\<close> of \<^verbatim>\<open>processedElements\<close> was
  added.
\<close>

definition records_of :: "scan_state \<Rightarrow> path \<Rightarrow> ElementRecord list" where
  "records_of st p =
     map snd (filter (\<lambda>(q, r). q = p) (zip (processedElements st) (elementDetails st)))"





text \<open>The invariant of the loop on lines 76-166.\<close>

definition scan_inv :: "document \<Rightarrow> scan_state \<Rightarrow> bool" where
  "scan_inv d st \<longleftrightarrow>
     distinct (processedElements st)
     \<and> list_all2 (\<lambda>p r. examine d p = Inr (Some r)) (processedElements st) (elementDetails st)"











text \<open>
  The values of a record that the object literal takes from the host as they are: the class,
  the type and four of the state fields.
\<close>

definition passed_through :: "ElementRecord \<Rightarrow> js_value list" where
  "passed_through r =
     [attr_class (attributes r), attr_type (attributes r), isDisabled (state r),
      isReadOnly (state r), isChecked (state r), isSelected (state r)]"

text \<open>
  A document in which no text extraction can throw: every element has a string for
  \<^verbatim>\<open>innerText\<close>, as every HTML element has, and a \<^verbatim>\<open>value\<close> that is a string unless it is
  falsy. (The \<^verbatim>\<open>value\<close> of a list item, a meter or a progress bar is a number.)
\<close>

fun is_string :: "js_value \<Rightarrow> bool" where
  "is_string (JStr s) = True"
| "is_string v = False"

definition well_typed :: "element \<Rightarrow> bool" where
  "well_typed e \<longleftrightarrow>
     is_string (innerText e) \<and> (truthy (value_prop e) \<longrightarrow> is_string (value_prop e))"

definition document_typed :: "document \<Rightarrow> bool" where
  "document_typed d \<longleftrightarrow>
     list_all (\<lambda>p. case node_at d p of
                      Some (Element e cs) \<Rightarrow> well_typed e
                    | Some (Text s) \<Rightarrow> True
                    | Some (Other n) \<Rightarrow> True
                    | None \<Rightarrow> True)
       (descendants 0 d)"

section \<open>Example documents\<close>

text \<open>
  An element that is rendered (a bounding box of 100 by 20, an offset parent, visible) and has
  no attributes and no interface properties.
\<close>

definition blank_rect :: DOMRect where
  "blank_rect = \<lparr> rect_x = 0, rect_y = 0, rect_width = 100, rect_height = 20 \<rparr>"

definition blank :: element where
  "blank = \<lparr> nodeName = [], attrs = [], className = JStr [], value_prop = JUndefined,
             type_prop = JUndefined, disabled = JUndefined, readOnly = JUndefined,
             checked = JUndefined, selected = JUndefined, innerText = JStr [],
             offsetParent_is_null = False, style_visibility = ''visible'',
             style_display = ''block'', boundingClientRect = blank_rect \<rparr>"

definition html_el :: "string \<Rightarrow> (string \<times> string) list \<Rightarrow> node list \<Rightarrow> node" where
  "html_el nm as cs = Element (blank \<lparr> nodeName := nm, attrs := as \<rparr>) cs"

definition body_context :: AncestorContext where
  "body_context = \<lparr> ctx_tagName = ''body'', ctx_id = None, ctx_role = None,
                     ctx_ariaLabel = None, ctx_form = None \<rparr>"


text \<open>
  A checked checkbox \<^verbatim>\<open><input type="checkbox" id="agree" aria-label="I agree">\<close> and a
  \<^verbatim>\<open><select name="country">\<close> with one option, and what the scan returns for them.
\<close>

definition agree_input :: element where
  "agree_input =
     blank \<lparr> nodeName := ''INPUT'',
             attrs := [(''type'', ''checkbox''), (''id'', ''agree''), (''aria-label'', ''I agree'')],
             value_prop := JStr ''on'', type_prop := JStr ''checkbox'',
             disabled := JBool False, readOnly := JBool False, checked := JBool True \<rparr>"

definition country_select :: element where
  "country_select =
     blank \<lparr> nodeName := ''SELECT'', attrs := [(''name'', ''country'')],
             value_prop := JStr ''fr'', type_prop := JStr ''select-one'',
             disabled := JBool False \<rparr>"

definition agree_doc :: document where
  "agree_doc =
     [Other ''html'',
      html_el ''HTML'' []
        [html_el ''BODY'' []
          [Element agree_input [],
           Element country_select
             [Element (blank \<lparr> nodeName := ''OPTION'', attrs := [(''value'', ''fr'')],
                                value_prop := JStr ''fr'', disabled := JBool False,
                                selected := JBool True \<rparr>)
                [Text ''France'']]]]]"

definition agree_record :: ElementRecord where
  "agree_record =
     \<lparr> tagName = ''input'',
       attributes = \<lparr> attr_id = Some ''agree'', attr_class = JNull, attr_name = None,
                      attr_type = JStr ''checkbox'', attr_role = None,
                      attr_ariaLabel = Some ''I agree'', attr_placeholder = None,
                      attr_href = None \<rparr>,
       state = \<lparr> isDisabled = JBool False, isReadOnly = JBool False, isChecked = JBool True,
                 isSelected = JUndefined, isHiddenByAria = False \<rparr>,
       texts = \<lparr> text_visibleText = Some ''on'', text_labelText = None,
                 text_computedText = ''I agree'' \<rparr>,
       ancestorContext = Some body_context,
       xpath = Some ''//*[@id='agree']'',
       location = blank_rect \<rparr>"

definition select_record :: ElementRecord where
  "select_record =
     \<lparr> tagName = ''select'',
       attributes = \<lparr> attr_id = None, attr_class = JNull, attr_name = Some ''country'',
                      attr_type = JNull, attr_role = None, attr_ariaLabel = None,
                      attr_placeholder = None, attr_href = None \<rparr>,
       state = \<lparr> isDisabled = JBool False, isReadOnly = JUndefined, isChecked = JUndefined,
                 isSelected = JUndefined, isHiddenByAria = False \<rparr>,
       texts = \<lparr> text_visibleText = Some ''France'', text_labelText = None,
                 text_computedText = ''France'' \<rparr>,
       ancestorContext = Some body_context,
       xpath = Some ''/html/body/select'',
       location = blank_rect \<rparr>"

definition agree_scan :: scan_state where
  "agree_scan = \<lparr> processedElements = [[1, 0, 0], [1, 0, 1]],
                   elementDetails = [agree_record, select_record] \<rparr>"

text \<open>
  Two text inputs, \<^verbatim>\<open><input id="q">\<close> and \<^verbatim>\<open><input>\<close>, neither with any text: the first is
  kept for its id, the second is dropped.
\<close>

definition text_input :: "(string \<times> string) list \<Rightarrow> element" where
  "text_input as =
     blank \<lparr> nodeName := ''INPUT'', attrs := as, value_prop := JStr [],
             type_prop := JStr ''text'', disabled := JBool False, readOnly := JBool False,
             checked := JBool False \<rparr>"

definition search_doc :: document where
  "search_doc =
     [html_el ''HTML'' []
        [html_el ''BODY'' []
          [Element (text_input [(''id'', ''q'')]) [], Element (text_input []) []]]]"

definition search_record :: ElementRecord where
  "search_record =
     \<lparr> tagName = ''input'',
       attributes = \<lparr> attr_id = Some ''q'', attr_class = JNull, attr_name = None,
                      attr_type = JStr ''text'', attr_role = None, attr_ariaLabel = None,
                      attr_placeholder = None, attr_href = None \<rparr>,
       state = \<lparr> isDisabled = JBool False, isReadOnly = JBool False, isChecked = JBool False,
                 isSelected = JUndefined, isHiddenByAria = False \<rparr>,
       texts = \<lparr> text_visibleText = None, text_labelText = None, text_computedText = [] \<rparr>,
       ancestorContext = Some body_context,
       xpath = Some ''//*[@id='q']'',
       location = blank_rect \<rparr>"

definition search_scan :: scan_state where
  "search_scan = \<lparr> processedElements = [[0, 0, 0]], elementDetails = [search_record] \<rparr>"

text \<open>\<^verbatim>\<open><button aria-label="Submit Now">Go</button>\<close>\<close>

definition submit_button :: element where
  "submit_button =
     blank \<lparr> nodeName := ''BUTTON'', attrs := [(''aria-label'', ''Submit Now'')],
             value_prop := JStr [], type_prop := JStr ''submit'', disabled := JBool False \<rparr>"

definition button_doc :: document where
  "button_doc = [html_el ''HTML'' [] [html_el ''BODY'' [] [Element submit_button [Text ''Go'']]]]"

definition button_record :: ElementRecord where
  "button_record =
     \<lparr> tagName = ''button'',
       attributes = \<lparr> attr_id = None, attr_class = JNull, attr_name = None,
                      attr_type = JNull, attr_role = None, attr_ariaLabel = Some ''Submit Now'',
                      attr_placeholder = None, attr_href = None \<rparr>,
       state = \<lparr> isDisabled = JBool False, isReadOnly = JUndefined, isChecked = JUndefined,
                 isSelected = JUndefined, isHiddenByAria = False \<rparr>,
       texts = \<lparr> text_visibleText = Some ''Go'', text_labelText = None,
                 text_computedText = ''Submit Now'' \<rparr>,
       ancestorContext = Some body_context,
       xpath = Some ''/html/body/button'',
       location = blank_rect \<rparr>"

definition button_scan :: scan_state where
  "button_scan = \<lparr> processedElements = [[0, 0, 0]], elementDetails = [button_record] \<rparr>"

text \<open>
  The record of the checkbox with \<^verbatim>\<open>isSelected\<close> set to false, as a host would give it that
  defines all four state properties on one element.
\<close>

definition all_defined_record :: ElementRecord where
  "all_defined_record =
     agree_record \<lparr> state := \<lparr> isDisabled = JBool False, isReadOnly = JBool False,
                                isChecked = JBool True, isSelected = JBool False,
                                isHiddenByAria = False \<rparr> \<rparr>"





text \<open>
  A list item used as a button, \<^verbatim>\<open><ol><li role="button" value="3">Third</li></ol>\<close>: its
  \<^verbatim>\<open>value\<close> is the number 3, which has no \<^verbatim>\<open>trim\<close>.
\<close>

definition list_item :: element where
  "list_item = blank \<lparr> nodeName := ''LI'', attrs := [(''role'', ''button''), (''value'', ''3'')],
                        value_prop := JNum 3 \<rparr>"

definition list_doc :: document where
  "list_doc =
     [html_el ''HTML'' []
        [html_el ''BODY'' [] [html_el ''OL'' [] [Element list_item [Text ''Third'']]]]]"

section \<open>The loop and its invariant\<close>

lemma and_then_Inr_iff:
  "and_then m f = Inr y \<longleftrightarrow> (\<exists>x. m = Inr x \<and> f x = Inr y)"
  by (cases m) (simp_all add: and_then_def)

lemma examine_Some:
  "examine d p = Inr (Some r) \<longleftrightarrow>
     (\<exists>e cs t. node_at d p = Some (Element e cs) \<and> \<not> invisible e
        \<and> extractText d p e cs = Inr t
        \<and> (elem_id e \<noteq> [] \<or> ex_computedText t \<noteq> [])
        \<and> r = buildRecord d p e t)"
  by (auto simp: examine_def and_then_Inr_iff split: option.splits node.splits if_splits)

lemma callback_cases:
  assumes "callback d p st = Inr st'"
  shows "(p \<in> set (processedElements st) \<and> st' = st)
       \<or> (p \<notin> set (processedElements st) \<and> examine d p = Inr None \<and> st' = st)
       \<or> (\<exists>r. p \<notin> set (processedElements st) \<and> examine d p = Inr (Some r)
              \<and> st' = \<lparr> processedElements = processedElements st @ [p],
                         elementDetails = elementDetails st @ [r] \<rparr>)"
  using assms
  by (auto simp: callback_def Set_has_def Set_add_def and_then_Inr_iff
           split: if_splits option.splits)

lemma callback_inv:
  assumes "callback d p st = Inr st'" and "scan_inv d st"
  shows "scan_inv d st'"
  using callback_cases [OF assms(1)] assms(2)
  by (auto simp: scan_inv_def list_all2_appendI)

lemma forEach_inv:
  "forEach d ps st = Inr st' \<Longrightarrow> scan_inv d st \<Longrightarrow> scan_inv d st'"
proof (induction ps arbitrary: st)
  case Nil
  then show ?case by simp
next
  case (Cons p ps)
  from Cons.prems(1) obtain st1
    where c: "callback d p st = Inr st1" and f: "forEach d ps st1 = Inr st'"
    by (auto simp: and_then_Inr_iff)
  from callback_inv [OF c Cons.prems(2)] have "scan_inv d st1" .
  from Cons.IH [OF f this] show ?case .
qed




lemma scan_inv_init: "scan_inv d \<lparr> processedElements = [], elementDetails = [] \<rparr>"
  by (simp add: scan_inv_def)

lemma scan_inv: "scan d = Inr st \<Longrightarrow> scan_inv d st"
  unfolding scan_def using forEach_inv scan_inv_init by blast

lemma scan_inv_length:
  "scan_inv d st \<Longrightarrow> length (processedElements st) = length (elementDetails st)"
  by (auto simp: scan_inv_def list_all2_lengthD)



lemma zip_examine:
  assumes "scan_inv d st" and "(p, r) \<in> set (zip (processedElements st) (elementDetails st))"
  shows "examine d p = Inr (Some r)"
  using assms by (auto simp: scan_inv_def list_all2_iff)


lemma in_details_zip:
  assumes "scan_inv d st" and "r \<in> set (elementDetails st)"
  shows "\<exists>p. (p, r) \<in> set (zip (processedElements st) (elementDetails st))"
proof -
  from assms(2) obtain i where "i < length (elementDetails st)" "elementDetails st ! i = r"
    by (auto simp: in_set_conv_nth)
  with scan_inv_length [OF assms(1)]
  have "(processedElements st ! i, r) \<in> set (zip (processedElements st) (elementDetails st))"
    by (auto simp: set_zip)
  then show ?thesis ..
qed

lemma records_of_iff:
  "r \<in> set (records_of st p) \<longleftrightarrow> (p, r) \<in> set (zip (processedElements st) (elementDetails st))"
  by (force simp: records_of_def)

lemma records_of_examine:
  assumes "scan d = Inr st" and "r \<in> set (records_of st p)"
  shows "examine d p = Inr (Some r)"
  using zip_examine [OF scan_inv [OF assms(1)]] assms(2) by (simp add: records_of_iff)

lemma records_of_built:
  assumes "scan d = Inr st" and "r \<in> set (records_of st p)"
    and "node_at d p = Some (Element e cs)"
  shows "\<exists>t. extractText d p e cs = Inr t \<and> r = buildRecord d p e t \<and> \<not> invisible e
           \<and> (elem_id e \<noteq> [] \<or> ex_computedText t \<noteq> [])"
  using records_of_examine [OF assms(1,2)] assms(3) by (auto simp: examine_Some)


lemma filter_fst_distinct:
  "distinct xs \<Longrightarrow> length (filter (\<lambda>(q, r). q = p) (zip xs ys)) \<le> 1"
proof (induction xs arbitrary: ys)
  case Nil
  then show ?case by simp
next
  case (Cons x xs)
  show ?case
  proof (cases ys)
    case Nil
    then show ?thesis by simp
  next
    case (Cons y ys')
    show ?thesis
    proof (cases "x = p")
      case True
      with Cons.prems have "p \<notin> set xs" by simp
      then have "filter (\<lambda>(q, r). q = p) (zip xs ys') = []"
        by (auto simp: filter_empty_conv dest: set_zip_leftD)
      with True Cons show ?thesis by simp
    next
      case False
      with Cons.IH [of ys'] Cons.prems Cons show ?thesis by simp
    qed
  qed
qed

section \<open>Paths and document order\<close>







section \<open>The walk of getXPathForElement\<close>





section \<open>The text sources\<close>






section \<open>The scans of the example documents\<close>

lemma scan_agree_doc: "scan agree_doc = Inr agree_scan"
  by code_simp

lemma scan_search_doc: "scan search_doc = Inr search_scan"
  by code_simp

lemma scan_button_doc: "scan button_doc = Inr button_scan"
  by code_simp

lemma node_at_agree_input: "node_at agree_doc [1, 0, 0] = Some (Element agree_input [])"
  by (simp add: node_at_def agree_doc_def html_el_def)

lemma node_at_country_select:
  "\<exists>cs. node_at agree_doc [1, 0, 1] = Some (Element country_select cs)"
  by (simp add: node_at_def agree_doc_def html_el_def)


section \<open>Reading a serialized value back\<close>

lemma length_parse_members [simp]: "length (parse_members ms) = length ms"
  by (induction ms) auto

lemma length_stringify_properties: "length (stringify_properties kvs) \<le> length kvs"
  by (induction kvs) (auto split: option.splits)

lemma reparsed_Some_iff:
  "reparsed v = Some w \<longleftrightarrow> (\<exists>j. JSON_stringify v = Some j \<and> JSON_parse j = w)"
  by (cases "JSON_stringify v") (simp_all add: reparsed_def)

lemma reparsed_simps [simp]:
  "reparsed JUndefined = None"
  "reparsed JNull = Some JNull"
  "reparsed (JBool b) = Some (JBool b)"
  "reparsed (JNum n) = Some (JNum n)"
  "reparsed (JStr s) = Some (JStr s)"
  by (simp_all add: reparsed_def)

lemma reparsed_string_or_null [simp]: "reparsed (string_or_null s) = Some (string_or_null s)"
  by (cases s) (simp_all add: string_or_null_def)

lemma members_kept:
  "\<forall>v \<in> snd ` set kvs. reparsed v = Some v \<Longrightarrow> parse_members (stringify_properties kvs) = kvs"
proof (induction kvs)
  case Nil
  then show ?case by simp
next
  case (Cons kv kvs)
  obtain k v where kv: "kv = (k, v)" by (cases kv)
  with Cons.prems have "reparsed v = Some v" by simp
  then obtain j where j: "JSON_stringify v = Some j" "JSON_parse j = v"
    by (auto simp: reparsed_Some_iff)
  from Cons.prems have "\<forall>v \<in> snd ` set kvs. reparsed v = Some v" by simp
  from Cons.IH [OF this] kv j show ?case by simp
qed

lemma members_changed:
  "parse_members (stringify_properties kvs) = kvs \<Longrightarrow> (k, v) \<in> set kvs \<Longrightarrow> reparsed v = Some v"
proof (induction kvs)
  case Nil
  then show ?case by simp
next
  case (Cons kv kvs)
  obtain k' v' where kv: "kv = (k', v')" by (cases kv)
  show ?case
  proof (cases "JSON_stringify v'")
    case None
    with kv Cons.prems(1) have "parse_members (stringify_properties kvs) = (k', v') # kvs"
      by simp
    then have "length (parse_members (stringify_properties kvs)) = Suc (length kvs)"
      by simp
    with length_stringify_properties [of kvs] show ?thesis by simp
  next
    case (Some j)
    with kv Cons.prems(1) have h: "JSON_parse j = v'"
      and t: "parse_members (stringify_properties kvs) = kvs"
      by simp_all
    show ?thesis
    proof (cases "(k, v) = (k', v')")
      case True
      with Some h show ?thesis by (simp add: reparsed_Some_iff)
    next
      case False
      with Cons.prems(2) kv have "(k, v) \<in> set kvs" by auto
      from Cons.IH [OF t this] show ?thesis .
    qed
  qed
qed

lemma reparsed_object_iff:
  "reparsed (JObject kvs) = Some (JObject kvs) \<longleftrightarrow> (\<forall>v \<in> snd ` set kvs. reparsed v = Some v)"
proof
  assume "reparsed (JObject kvs) = Some (JObject kvs)"
  then have "parse_members (stringify_properties kvs) = kvs"
    by (simp add: reparsed_Some_iff)
  from members_changed [OF this] show "\<forall>v \<in> snd ` set kvs. reparsed v = Some v"
    by auto
next
  assume "\<forall>v \<in> snd ` set kvs. reparsed v = Some v"
  from members_kept [OF this] show "reparsed (JObject kvs) = Some (JObject kvs)"
    by (simp add: reparsed_Some_iff)
qed

lemma elements_kept:
  "\<forall>v \<in> set vs. reparsed v = Some v \<Longrightarrow> parse_elements (stringify_elements vs) = vs"
proof (induction vs)
  case Nil
  then show ?case by simp
next
  case (Cons v vs)
  from Cons.prems have "reparsed v = Some v" by simp
  then obtain j where j: "JSON_stringify v = Some j" "JSON_parse j = v"
    by (auto simp: reparsed_Some_iff)
  from Cons.prems have "\<forall>v \<in> set vs. reparsed v = Some v" by simp
  from Cons.IH [OF this] j show ?case by simp
qed

lemma stringify_None_iff: "JSON_stringify v = None \<longleftrightarrow> v = JUndefined"
  by (cases v) auto

lemma elements_changed:
  "parse_elements (stringify_elements vs) = vs \<Longrightarrow> v \<in> set vs \<Longrightarrow> reparsed v = Some v"
proof (induction vs)
  case Nil
  then show ?case by simp
next
  case (Cons w vs)
  from Cons.prems(1)
  have h: "JSON_parse (case JSON_stringify w of None \<Rightarrow> JsonNull | Some j \<Rightarrow> j) = w"
    and t: "parse_elements (stringify_elements vs) = vs"
    by simp_all
  have w: "reparsed w = Some w"
  proof (cases "JSON_stringify w")
    case None
    with h stringify_None_iff [of w] show ?thesis by simp
  next
    case (Some j)
    with h show ?thesis by (simp add: reparsed_Some_iff)
  qed
  show ?case
  proof (cases "v = w")
    case True
    with w show ?thesis by simp
  next
    case False
    with Cons.prems(2) have "v \<in> set vs" by simp
    from Cons.IH [OF t this] show ?thesis .
  qed
qed

lemma reparsed_array_iff:
  "reparsed (JArray vs) = Some (JArray vs) \<longleftrightarrow> (\<forall>v \<in> set vs. reparsed v = Some v)"
proof
  assume "reparsed (JArray vs) = Some (JArray vs)"
  then have "parse_elements (stringify_elements vs) = vs"
    by (simp add: reparsed_Some_iff)
  from elements_changed [OF this] show "\<forall>v \<in> set vs. reparsed v = Some v"
    by auto
next
  assume "\<forall>v \<in> set vs. reparsed v = Some v"
  from elements_kept [OF this] show "reparsed (JArray vs) = Some (JArray vs)"
    by (simp add: reparsed_Some_iff)
qed

lemma reparsed_form [simp]: "reparsed (form_object f) = Some (form_object f)"
  by (simp add: form_object_def reparsed_object_iff)

lemma reparsed_context [simp]: "reparsed (context_object c) = Some (context_object c)"
  by (cases c) (auto simp: context_object_def reparsed_object_iff split: option.splits)

lemma reparsed_text [simp]: "reparsed (text_object t) = Some (text_object t)"
  by (simp add: text_object_def reparsed_object_iff)

lemma reparsed_location [simp]: "reparsed (location_object r) = Some (location_object r)"
  by (simp add: location_object_def reparsed_object_iff)

lemma reparsed_record_iff:
  "reparsed (record_object r) = Some (record_object r) \<longleftrightarrow>
     (\<forall>v \<in> set (passed_through r). reparsed v = Some v)"
proof -
  have a: "reparsed (attributes_object (attributes r)) = Some (attributes_object (attributes r))
        \<longleftrightarrow> reparsed (attr_class (attributes r)) = Some (attr_class (attributes r))
          \<and> reparsed (attr_type (attributes r)) = Some (attr_type (attributes r))"
    by (simp add: attributes_object_def reparsed_object_iff)
  have s: "reparsed (state_object (state r)) = Some (state_object (state r))
        \<longleftrightarrow> reparsed (isDisabled (state r)) = Some (isDisabled (state r))
          \<and> reparsed (isReadOnly (state r)) = Some (isReadOnly (state r))
          \<and> reparsed (isChecked (state r)) = Some (isChecked (state r))
          \<and> reparsed (isSelected (state r)) = Some (isSelected (state r))"
    by (simp add: state_object_def state_properties_def reparsed_object_iff)
  have "reparsed (record_object r) = Some (record_object r) \<longleftrightarrow>
        reparsed (attributes_object (attributes r)) = Some (attributes_object (attributes r))
        \<and> reparsed (state_object (state r)) = Some (state_object (state r))"
    by (simp add: record_object_def reparsed_object_iff)
  with a s show ?thesis by (simp add: passed_through_def)
qed

lemma object_keys_members:
  "map fst (parse_members (stringify_properties kvs))
     = map fst (filter (\<lambda>(k, v). v \<noteq> JUndefined) kvs)"
proof (induction kvs)
  case Nil
  then show ?case by simp
next
  case (Cons kv kvs)
  obtain k v where kv: "kv = (k, v)" by (cases kv)
  with Cons stringify_None_iff [of v] show ?case by (cases "JSON_stringify v") auto
qed

lemma object_keys_reparsed_state:
  "map_option object_keys (reparsed (state_object s)) =
     Some (map fst (filter (\<lambda>(k, v). v \<noteq> JUndefined) (state_properties s)))"
  by (simp add: reparsed_def state_object_def object_keys_members)

lemma object_keys_state:
  "object_keys (state_object s) =
     [''isDisabled'', ''isReadOnly'', ''isChecked'', ''isSelected'', ''isHiddenByAria'']"
  by (simp add: state_object_def state_properties_def)

section \<open>Rendering, parsing and evaluating a path\<close>







subsection \<open>Numbers\<close>




subsection \<open>Splitting and joining\<close>




subsection \<open>The sibling loops\<close>





subsection \<open>Names and steps\<close>






subsection \<open>Selecting a child\<close>


















section \<open>When the scan completes\<close>

lemma descendants_first: "q \<in> set (descendants i ns) \<Longrightarrow> q \<noteq> [] \<and> i \<le> hd q"
  by (induction i ns rule: descendants.induct) (auto simp: Suc_leD)

lemma distinct_descendants: "distinct (descendants i ns)"
proof (induction i ns rule: descendants.induct)
  case (2 i e cs ns)
  have a: "[i] \<notin> (#) i ` set (descendants 0 cs)"
    using descendants_first [of _ 0 cs] by auto
  have b: "[i] \<notin> set (descendants (Suc i) ns)"
    using descendants_first [of "[i]" "Suc i" ns] by auto
  have c: "(#) i ` set (descendants 0 cs) \<inter> set (descendants (Suc i) ns) = {}"
    using descendants_first [of _ "Suc i" ns] by fastforce
  from 2 a b c show ?case by (simp add: distinct_map)
qed simp_all

lemma querySelectorAll_distinct: "distinct (querySelectorAll d sel)"
  by (simp add: querySelectorAll_def distinct_descendants)











text \<open>The scan of a document that is not typed so can throw, and then returns nothing.\<close>

lemma scan_list_doc: "\<not> document_typed list_doc \<and> scan list_doc = Inl TypeError"
  by code_simp


section \<open>Properties of getXPathForElement\<close>





section \<open>Properties of the scan\<close>



text \<open>
  C5. Whatever candidates the loop is given, also with repetitions, the members of
  \<^verbatim>\<open>processedElements\<close> are pairwise different nodes, there is one record for each of them, and no
  node has more than one record. The scan is the loop run on the result of
  \<^verbatim>\<open>querySelectorAll\<close> with this initial state.
\<close>

theorem one_record_per_node:
  assumes "forEach d ps \<lparr> processedElements = [], elementDetails = [] \<rparr> = Inr st"
  shows "distinct (processedElements st)
       \<and> length (elementDetails st) = length (processedElements st)
       \<and> length (records_of st p) \<le> 1"
proof -
  from forEach_inv [OF assms scan_inv_init] have inv: "scan_inv d st" .
  then have "distinct (processedElements st)" by (simp add: scan_inv_def)
  moreover from scan_inv_length [OF inv]
  have "length (elementDetails st) = length (processedElements st)" by simp
  moreover from filter_fst_distinct [OF \<open>distinct (processedElements st)\<close>]
  have "length (records_of st p) \<le> 1" by (simp add: records_of_def)
  ultimately show ?thesis by simp
qed

theorem one_record_per_node_witness:
  "forEach button_doc [[0, 0, 0], [0, 0, 0]] \<lparr> processedElements = [], elementDetails = [] \<rparr>
     = Inr button_scan
   \<and> length (elementDetails button_scan) = length (processedElements button_scan)
   \<and> length (records_of button_scan [0, 0, 0]) \<le> 1"
proof -
  have f: "forEach button_doc [[0, 0, 0], [0, 0, 0]]
             \<lparr> processedElements = [], elementDetails = [] \<rparr> = Inr button_scan"
    by code_simp
  from one_record_per_node [OF f, of "[0, 0, 0]"] f show ?thesis by blast
qed

text \<open>
  C4, as amended. Every record of the output has a non-empty id or a non-empty computed text;
  the computed text is non-empty for every record whose id is null.
\<close>

theorem record_has_id_or_computedText:
  assumes "scan d = Inr st" and "r \<in> set (elementDetails st)"
  shows "attr_id (attributes r) \<noteq> None \<or> text_computedText (texts r) \<noteq> []"
proof -
  from in_details_zip [OF scan_inv [OF assms(1)] assms(2)] obtain p
    where "(p, r) \<in> set (zip (processedElements st) (elementDetails st))" ..
  from zip_examine [OF scan_inv [OF assms(1)] this] have "examine d p = Inr (Some r)" .
  then show ?thesis by (auto simp: examine_Some buildRecord_def)
qed

theorem record_has_id_or_computedText_witness:
  "button_record \<in> set (elementDetails button_scan)
   \<and> attr_id (attributes button_record) = None
   \<and> text_computedText (texts button_record) \<noteq> []"
proof -
  have m: "button_record \<in> set (elementDetails button_scan)" by (simp add: button_scan_def)
  have i: "attr_id (attributes button_record) = None" by (simp add: button_record_def)
  from record_has_id_or_computedText [OF scan_button_doc m] i
  have "text_computedText (texts button_record) \<noteq> []" by blast
  with m i show ?thesis by blast
qed

text \<open>
  C4, as stated, fails: \<^verbatim>\<open><input id="q">\<close> with no text at all is kept for its id, and its
  computed text is empty.
\<close>

theorem computedText_empty_counterexample:
  "scan search_doc = Inr search_scan \<and> elementDetails search_scan = [search_record]
   \<and> text_computedText (texts search_record) = []"
  by (simp add: scan_search_doc search_scan_def search_record_def)





text \<open>
  C10. The \<^verbatim>\<open>type\<close> of a record is the \<^verbatim>\<open>type\<close> property of the element when the lower-cased
  tag is \<^verbatim>\<open>input\<close>, and null for every other tag (so also for \<^verbatim>\<open>select\<close>, \<^verbatim>\<open>textarea\<close> and
  \<^verbatim>\<open>button\<close>, whatever their own \<^verbatim>\<open>type\<close> property holds).
\<close>

theorem type_only_for_input:
  assumes "scan d = Inr st" and "r \<in> set (records_of st p)"
    and "node_at d p = Some (Element e cs)"
  shows "tagName r = toLowerCase (nodeName e)
       \<and> (tagName r = ''input'' \<longrightarrow> attr_type (attributes r) = type_prop e)
       \<and> (tagName r \<noteq> ''input'' \<longrightarrow> attr_type (attributes r) = JNull)"
  using records_of_built [OF assms] by (auto simp: buildRecord_def)

theorem type_only_for_input_witness:
  "type_prop country_select = JStr ''select-one''
   \<and> attr_type (attributes select_record) = JNull
   \<and> attr_type (attributes agree_record) = type_prop agree_input"
proof -
  have r1: "select_record \<in> set (records_of agree_scan [1, 0, 1])"
    by (simp add: records_of_def agree_scan_def)
  from node_at_country_select obtain cs
    where n1: "node_at agree_doc [1, 0, 1] = Some (Element country_select cs)" ..
  have r2: "agree_record \<in> set (records_of agree_scan [1, 0, 0])"
    by (simp add: records_of_def agree_scan_def)
  from type_only_for_input [OF scan_agree_doc r1 n1]
  have 1: "attr_type (attributes select_record) = JNull"
    by (simp add: select_record_def)
  from type_only_for_input [OF scan_agree_doc r2 node_at_agree_input]
  have 2: "attr_type (attributes agree_record) = type_prop agree_input"
    by (simp add: agree_record_def)
  from 1 2 show ?thesis by (simp add: country_select_def)
qed

section \<open>The path of an element without an id\<close>




section \<open>Serializing the records\<close>

text \<open>
  C6, as amended. The record sequence read back from its serialized text is the sequence
  itself exactly when every value that a record takes from the host as it is (class, type,
  isDisabled, isReadOnly, isChecked, isSelected) is read back as itself, which
  \<^verbatim>\<open>undefined\<close> is not. The state object of a record in memory has all five fields; the one
  read back has those whose value is not \<^verbatim>\<open>undefined\<close>.
\<close>

theorem reparsed_iff_nothing_undefined:
  "(reparsed (details_array rs) = Some (details_array rs)
      \<longleftrightarrow> (\<forall>r \<in> set rs. \<forall>v \<in> set (passed_through r). reparsed v = Some v))
   \<and> (\<forall>r \<in> set rs.
        object_keys (state_object (state r)) =
          [''isDisabled'', ''isReadOnly'', ''isChecked'', ''isSelected'', ''isHiddenByAria'']
        \<and> map_option object_keys (reparsed (state_object (state r))) =
          Some (map fst (filter (\<lambda>(k, v). v \<noteq> JUndefined) (state_properties (state r)))))"
proof -
  have "reparsed (details_array rs) = Some (details_array rs)
      \<longleftrightarrow> (\<forall>r \<in> set rs. reparsed (record_object r) = Some (record_object r))"
    by (simp add: details_array_def reparsed_array_iff)
  then show ?thesis
    by (simp only: reparsed_record_iff object_keys_state object_keys_reparsed_state) simp
qed

theorem reparsed_iff_nothing_undefined_witness:
  "reparsed (details_array [all_defined_record]) = Some (details_array [all_defined_record])
   \<and> reparsed (details_array [agree_record]) \<noteq> Some (details_array [agree_record])
   \<and> map_option object_keys (reparsed (state_object (state agree_record))) =
       Some [''isDisabled'', ''isReadOnly'', ''isChecked'', ''isHiddenByAria'']"
proof -
  have p: "passed_through all_defined_record =
      [JNull, JStr ''checkbox'', JBool False, JBool False, JBool True, JBool False]"
    by (simp add: passed_through_def all_defined_record_def agree_record_def)
  have q: "passed_through agree_record =
      [JNull, JStr ''checkbox'', JBool False, JBool False, JBool True, JUndefined]"
    by (simp add: passed_through_def agree_record_def)
  have s: "state_properties (state agree_record) =
      [(''isDisabled'', JBool False), (''isReadOnly'', JBool False),
       (''isChecked'', JBool True), (''isSelected'', JUndefined),
       (''isHiddenByAria'', JBool False)]"
    by (simp add: state_properties_def agree_record_def)
  from reparsed_iff_nothing_undefined [of "[all_defined_record]"]
  have 1: "reparsed (details_array [all_defined_record]) = Some (details_array [all_defined_record])"
    by (simp add: p)
  from reparsed_iff_nothing_undefined [of "[agree_record]"]
  have 2: "reparsed (details_array [agree_record]) \<noteq> Some (details_array [agree_record])"
    and 3: "map_option object_keys (reparsed (state_object (state agree_record))) =
       Some [''isDisabled'', ''isReadOnly'', ''isChecked'', ''isHiddenByAria'']"
    by (simp_all add: q s)
  from 1 2 3 show ?thesis by simp
qed

text \<open>
  C6, as stated, fails: the record of \<^verbatim>\<open><button aria-label="Submit Now">Go</button>\<close> holds
  \<^verbatim>\<open>undefined\<close> in isReadOnly, isChecked and isSelected, and the state object read back has
  only the other two fields.
\<close>

theorem undefined_state_omitted_counterexample:
  "scan button_doc = Inr button_scan
   \<and> reparsed (details_array (elementDetails button_scan))
       \<noteq> Some (details_array (elementDetails button_scan))
   \<and> state_object (state button_record) =
       JObject [(''isDisabled'', JBool False), (''isReadOnly'', JUndefined),
                (''isChecked'', JUndefined), (''isSelected'', JUndefined),
                (''isHiddenByAria'', JBool False)]
   \<and> reparsed (state_object (state button_record)) =
       Some (JObject [(''isDisabled'', JBool False), (''isHiddenByAria'', JBool False)])"
proof -
  have "reparsed (details_array (elementDetails button_scan))
       \<noteq> Some (details_array (elementDetails button_scan))"
    by code_simp
  moreover have "state_object (state button_record) =
       JObject [(''isDisabled'', JBool False), (''isReadOnly'', JUndefined),
                (''isChecked'', JUndefined), (''isSelected'', JUndefined),
                (''isHiddenByAria'', JBool False)]"
    by (simp add: state_object_def state_properties_def button_record_def)
  moreover have "reparsed (state_object (state button_record)) =
       Some (JObject [(''isDisabled'', JBool False), (''isHiddenByAria'', JBool False)])"
    by (simp add: state_object_def state_properties_def button_record_def reparsed_def)
  ultimately show ?thesis using scan_button_doc by simp
qed

end
